theory Spec2Isabelle
  imports Main
begin

section \<open>The airtime bot: data, environment and effects\<close>

text \<open>
  The program is one Python module, \<^verbatim>\<open>aitest.py\<close>: a Telegram bot whose handlers
  talk to three MongoDB collections and to the Telegram Bot API. The embedding keeps the
  handlers' names and their order of statements. Everything a handler does besides
  returning is written into a \<open>world\<close>: the three collections, the wall clock, the
  counter of message ids, and the trace of the calls made to the platform, to the
  database and to the logger, in the order the handler makes them.
\<close>

subsection \<open>Exceptions\<close>

datatype exn = AttributeError | IndexError | TelegramError | PyMongoError

subsection \<open>Telegram objects\<close>

record tg_user =
  uid :: int
  u_username :: "string option"
  u_first_name :: string
  u_last_name :: "string option"

text \<open>
  A message as the handlers see it: its id, its chat, its sender, and what the
  library's command handler reads from its text: the command name as the user typed it
  (the text between the slash and the first blank or \<^verbatim>\<open>@\<close>) and the words after
  it, which become \<^verbatim>\<open>context.args\<close>.
\<close>

record tg_message =
  message_id :: nat
  chat_id :: int
  from_user :: tg_user
  command :: string
  command_args :: "string list"

record tg_callback_query =
  cq_from_user :: tg_user
  cq_message :: tg_message
  data :: string

text \<open>
  An update carries exactly one payload. The kinds the registered handlers accept are a
  new message, an edited message and a callback query. \<^verbatim>\<open>update.message\<close> is the
  new message and is \<^verbatim>\<open>None\<close> on the other two kinds: an edited message is
  \<^verbatim>\<open>update.edited_message\<close>, and the message a button sits on is
  \<^verbatim>\<open>update.callback_query.message\<close>. \<^verbatim>\<open>update.callback_query\<close> is
  \<^verbatim>\<open>None\<close> unless the update is a callback query.
  \<^verbatim>\<open>update.effective_user\<close> is the sender of whichever payload is present.
\<close>

datatype tg_update =
    Message_update tg_message
  | Edited_message_update tg_message
  | Callback_update tg_callback_query

fun message :: "tg_update \<Rightarrow> tg_message option" where
  "message (Message_update m) = Some m"
| "message (Edited_message_update m) = None"
| "message (Callback_update q) = None"

fun callback_query :: "tg_update \<Rightarrow> tg_callback_query option" where
  "callback_query (Message_update m) = None"
| "callback_query (Edited_message_update m) = None"
| "callback_query (Callback_update q) = Some q"

fun effective_user :: "tg_update \<Rightarrow> tg_user" where
  "effective_user (Message_update m) = from_user m"
| "effective_user (Edited_message_update m) = from_user m"
| "effective_user (Callback_update q) = cq_from_user q"

record handler_context =
  args :: "string list"

subsection \<open>Texts and keyboards\<close>

text \<open>
  The texts the bot sends are fixed templates with emoji; each template is a
  constructor, its parameters the values the f-string interpolates.
  \<open>Plain\<close> is a string sent as it is (the broadcast body).
\<close>

datatype msg_text =
    Join_prompt
  | Verified_text
  | Not_joined_alert
  | Processing_frame nat
  | Request_successful string int
  | Welcome_text
  | User_info int string string nat nat
  | Not_authorized
  | Bot_statistics nat nat
  | No_permission
  | Provide_message
  | Broadcast_sent nat
  | Plain string

datatype label =
    Join_label string
  | Verify_label
  | Network_label string
  | Request_again_label
  | My_stats_label

datatype button = Url_button label string | Callback_button label string

type_synonym markup = "button list list"

subsection \<open>Persisted documents\<close>

text \<open>
  A timestamp is the number of seconds the string
  \<^verbatim>\<open>datetime.now().strftime('%Y-%m-%d %H:%M:%S')\<close> denotes.
\<close>

type_synonym timestamp = nat

record user_doc =
  user_id :: int
  username :: "string option"
  first_name :: string
  last_name :: "string option"
  balance :: int
  requests :: int
  join_date :: timestamp

record airtime_request_doc =
  req_user_id :: int
  network :: string
  phone_number :: string
  amount :: int
  status :: string
  timestamp :: timestamp

record transaction_doc =
  tx_user_id :: int
  tx_type :: string
  tx_amount :: int
  tx_status :: string
  tx_timestamp :: timestamp

subsection \<open>Trace, world, environment, configuration\<close>

datatype db_op = Update_one | Insert_one | Find_one | Find | Count_documents

datatype event =
    Get_chat_member string int
  | Reply_text int msg_text "markup option"
  | Edit_text nat msg_text
  | Delete_message nat
  | Answer_query "msg_text option" bool
  | Send_message int msg_text
  | Sleep nat
  | Log_error
  | Db string db_op

record world =
  users :: "user_doc list"
  airtime_requests :: "airtime_request_doc list"
  transactions :: "transaction_doc list"
  clock :: timestamp
  next_message_id :: nat
  trace :: "event list"

text \<open>
  What the handlers cannot decide themselves: the answer of the platform's membership
  lookup (a status string, or an exception), whether a delivery to a user succeeds,
  whether an insert into a collection fails, and the number \<^verbatim>\<open>random.randint\<close>
  draws.
\<close>

record env =
  get_chat_member :: "string \<Rightarrow> int \<Rightarrow> exn + string"
  send_message :: "int \<Rightarrow> msg_text \<Rightarrow> exn + unit"
  insert_one :: "string \<Rightarrow> exn option"
  randint :: "int \<Rightarrow> int \<Rightarrow> int"

record config =
  admin_id :: int
  required_channels :: "string list"
  channel_links :: "string list"

type_synonym 'a io = "world \<Rightarrow> (exn + 'a) \<times> world"

definition emit :: "event \<Rightarrow> world \<Rightarrow> world" where
  "emit e w = w\<lparr>trace := trace w @ [e]\<rparr>"

definition bind_io :: "'a io \<Rightarrow> ('a \<Rightarrow> 'b io) \<Rightarrow> 'b io" where
  "bind_io m f w = (case m w of (Inl e, w') \<Rightarrow> (Inl e, w') | (Inr x, w') \<Rightarrow> f x w')"

text \<open>The events a run appends to the trace it started from.\<close>

definition new_events :: "world \<Rightarrow> world \<Rightarrow> event list" where
  "new_events w w' = drop (length (trace w)) (trace w')"

section \<open>Database functions\<close>

text \<open>
  \<^verbatim>\<open>update_one(filter, {'$set': ...}, upsert=True)\<close>: the first document that
  matches is updated in place; when none matches, one document is inserted.
\<close>

fun update_one_upsert :: "('d \<Rightarrow> bool) \<Rightarrow> ('d \<Rightarrow> 'd) \<Rightarrow> 'd \<Rightarrow> 'd list \<Rightarrow> 'd list" where
  "update_one_upsert p f ins [] = [ins]"
| "update_one_upsert p f ins (d # ds) =
     (if p d then f d # ds else d # update_one_upsert p f ins ds)"

definition add_user :: "tg_user \<Rightarrow> unit io" where
  "add_user user w =
     (let now = clock w in
      (Inr (),
       emit (Db ''users'' Update_one)
         (w\<lparr>users :=
              update_one_upsert (\<lambda>d. user_id d = uid user)
                (\<lambda>d. d\<lparr>username := u_username user,
                        first_name := u_first_name user,
                        last_name := u_last_name user,
                        balance := 0,
                        requests := 0,
                        join_date := now\<rparr>)
                \<lparr>user_id = uid user,
                 username = u_username user,
                 first_name = u_first_name user,
                 last_name = u_last_name user,
                 balance = 0,
                 requests = 0,
                 join_date = now\<rparr>
                (users w)\<rparr>)))"

definition add_airtime_request :: "env \<Rightarrow> int \<Rightarrow> string \<Rightarrow> string \<Rightarrow> int \<Rightarrow> unit io" where
  "add_airtime_request en user_id' network' phone_number' amount' w =
     (let w1 = emit (Db ''airtime_requests'' Insert_one) w in
      case insert_one en ''airtime_requests'' of
        Some e \<Rightarrow> (Inl e, w1)
      | None \<Rightarrow>
          (Inr (),
           w1\<lparr>airtime_requests := airtime_requests w1 @
                 [\<lparr>req_user_id = user_id',
                   network = network',
                   phone_number = phone_number',
                   amount = amount',
                   status = ''pending'',
                   timestamp = clock w\<rparr>]\<rparr>))"

definition add_transaction :: "env \<Rightarrow> int \<Rightarrow> string \<Rightarrow> int \<Rightarrow> string \<Rightarrow> unit io" where
  "add_transaction en user_id' transaction_type amount' status' w =
     (let w1 = emit (Db ''transactions'' Insert_one) w in
      case insert_one en ''transactions'' of
        Some e \<Rightarrow> (Inl e, w1)
      | None \<Rightarrow>
          (Inr (),
           w1\<lparr>transactions := transactions w1 @
                 [\<lparr>tx_user_id = user_id',
                   tx_type = transaction_type,
                   tx_amount = amount',
                   tx_status = status',
                   tx_timestamp = clock w\<rparr>]\<rparr>))"

definition get_user_stats :: "int \<Rightarrow> (user_doc option \<times> nat) io" where
  "get_user_stats user_id' w =
     (let w1 = emit (Db ''users'' Find_one) w;
          user = find (\<lambda>d. user_id d = user_id') (users w);
          w2 = emit (Db ''airtime_requests'' Count_documents) w1;
          request_count = length (filter (\<lambda>r. req_user_id r = user_id') (airtime_requests w))
      in (Inr (user, request_count), w2))"

section \<open>Force join\<close>

text \<open>
  \<^verbatim>\<open>is_user_member\<close>: one lookup per required channel, in order; a status outside
  the three accepted ones returns \<open>False\<close> at once, an exception is logged and returns
  \<open>False\<close> at once.
\<close>

fun is_user_member_loop :: "env \<Rightarrow> int \<Rightarrow> string list \<Rightarrow> bool io" where
  "is_user_member_loop en user_id' [] w = (Inr True, w)"
| "is_user_member_loop en user_id' (channel # channels) w =
     (let w1 = emit (Get_chat_member (CHR ''@'' # channel) user_id') w in
      case get_chat_member en (CHR ''@'' # channel) user_id' of
        Inl e \<Rightarrow> (Inr False, emit Log_error w1)
      | Inr st \<Rightarrow>
          if st \<notin> set [''member'', ''administrator'', ''creator'']
          then (Inr False, w1)
          else is_user_member_loop en user_id' channels w1)"

definition is_user_member :: "config \<Rightarrow> env \<Rightarrow> int \<Rightarrow> bool io" where
  "is_user_member cfg en user_id' = is_user_member_loop en user_id' (required_channels cfg)"

section \<open>Primitives of the platform and of Python\<close>

definition return_io :: "'a \<Rightarrow> 'a io" where
  "return_io x w = (Inr x, w)"

definition raise_io :: "exn \<Rightarrow> 'a io" where
  "raise_io e w = (Inl e, w)"

text \<open>
  \<^verbatim>\<open>target.reply_text(text, reply_markup=...)\<close> sends a new message into the
  chat of \<open>target\<close> and returns it; on \<^verbatim>\<open>None\<close> the attribute access raises.
  Of the message returned the handlers read the id and the chat only.
\<close>

definition reply_text :: "tg_message option \<Rightarrow> msg_text \<Rightarrow> markup option \<Rightarrow> tg_message io" where
  "reply_text target txt reply_markup w =
     (case target of
        None \<Rightarrow> (Inl AttributeError, w)
      | Some m \<Rightarrow>
          (Inr (m\<lparr>message_id := next_message_id w, command := [], command_args := []\<rparr>),
           emit (Reply_text (chat_id m) txt reply_markup)
             (w\<lparr>next_message_id := Suc (next_message_id w)\<rparr>)))"

definition edit_text :: "tg_message \<Rightarrow> msg_text \<Rightarrow> unit io" where
  "edit_text m txt w = (Inr (), emit (Edit_text (message_id m) txt) w)"

definition delete_message :: "tg_message \<Rightarrow> unit io" where
  "delete_message m w = (Inr (), emit (Delete_message (message_id m)) w)"

definition answer :: "tg_callback_query \<Rightarrow> msg_text option \<Rightarrow> bool \<Rightarrow> unit io" where
  "answer query txt show_alert w = (Inr (), emit (Answer_query txt show_alert) w)"

text \<open>The clock of the model advances by the delays the handlers ask for.\<close>

definition asyncio_sleep :: "nat \<Rightarrow> unit io" where
  "asyncio_sleep d w = (Inr (), emit (Sleep d) (w\<lparr>clock := clock w + d\<rparr>))"

definition get_item :: "'a list \<Rightarrow> nat \<Rightarrow> exn + 'a" where
  "get_item xs i = (if i < length xs then Inr (xs ! i) else Inl IndexError)"

text \<open>\<^verbatim>\<open>s.split(sep)\<close> for a one-character separator, and \<^verbatim>\<open>sep.join(xs)\<close>.\<close>

fun split_on :: "char \<Rightarrow> string \<Rightarrow> string list" where
  "split_on sep [] = [[]]"
| "split_on sep (c # cs) =
     (if c = sep then [] # split_on sep cs
      else (case split_on sep cs of
              [] \<Rightarrow> [[c]]
            | p # ps \<Rightarrow> (c # p) # ps))"

fun str_join :: "string \<Rightarrow> string list \<Rightarrow> string" where
  "str_join sep [] = []"
| "str_join sep [x] = x"
| "str_join sep (x # y # ys) = x @ sep @ str_join sep (y # ys)"

section \<open>Force join: the prompt\<close>

fun join_rows :: "config \<Rightarrow> nat list \<Rightarrow> exn + markup" where
  "join_rows cfg [] = Inr []"
| "join_rows cfg (i # is) =
     (case get_item (required_channels cfg) i of
        Inl e \<Rightarrow> Inl e
      | Inr channel \<Rightarrow>
          (case get_item (channel_links cfg) i of
             Inl e \<Rightarrow> Inl e
           | Inr link \<Rightarrow>
               (case join_rows cfg is of
                  Inl e \<Rightarrow> Inl e
                | Inr rows \<Rightarrow> Inr ([Url_button (Join_label channel) link] # rows))))"

definition ask_user_to_join :: "config \<Rightarrow> tg_update \<Rightarrow> unit io" where
  "ask_user_to_join cfg update =
     (case join_rows cfg [0 ..< length (required_channels cfg)] of
        Inl e \<Rightarrow> raise_io e
      | Inr rows \<Rightarrow>
          (let buttons = rows @ [[Callback_button Verify_label ''verify_membership'']] in
           bind_io (reply_text (message update) Join_prompt (Some buttons))
             (\<lambda>_. return_io ())))"

section \<open>Command handlers\<close>

definition feature_menu :: markup where
  "feature_menu =
     [[Callback_button (Network_label ''MTN'') ''airtime_MTN''],
      [Callback_button (Network_label ''Airtel'') ''airtime_AIRTEL''],
      [Callback_button (Network_label ''Glo'') ''airtime_GLO''],
      [Callback_button (Network_label ''9mobile'') ''airtime_9MOBILE'']]"

definition start :: "config \<Rightarrow> env \<Rightarrow> handler_context \<Rightarrow> tg_update \<Rightarrow> unit io" where
  "start cfg en ctx update =
     (let user = effective_user update in
      bind_io (add_user user) (\<lambda>_.
      bind_io (is_user_member cfg en (uid user)) (\<lambda>member.
      if \<not> member then ask_user_to_join cfg update
      else bind_io (reply_text (message update) Welcome_text (Some feature_menu))
             (\<lambda>_. return_io ()))))"

text \<open>
  \<^verbatim>\<open>profile\<close> reads the record without creating it; \<^verbatim>\<open>user_data.get\<close> on the
  \<^verbatim>\<open>None\<close> that \<^verbatim>\<open>find_one\<close> returns for an unknown user raises.
\<close>

definition profile :: "config \<Rightarrow> env \<Rightarrow> handler_context \<Rightarrow> tg_update \<Rightarrow> unit io" where
  "profile cfg en ctx update =
     (let user = effective_user update in
      bind_io (is_user_member cfg en (uid user)) (\<lambda>member.
      if \<not> member then ask_user_to_join cfg update
      else bind_io (get_user_stats (uid user)) (\<lambda>(user_data, request_count).
           case message update of
             None \<Rightarrow> raise_io AttributeError
           | Some m \<Rightarrow>
               (case user_data of
                  None \<Rightarrow> raise_io AttributeError
                | Some d \<Rightarrow>
                    bind_io (reply_text (Some m)
                               (User_info (uid user) (u_first_name user)
                                  (case u_username user of
                                     None \<Rightarrow> ''N/A''
                                   | Some n \<Rightarrow> if n = [] then ''N/A'' else n)
                                  request_count (join_date d))
                               None)
                      (\<lambda>_. return_io ())))))"

definition stats :: "config \<Rightarrow> env \<Rightarrow> handler_context \<Rightarrow> tg_update \<Rightarrow> unit io" where
  "stats cfg en ctx update =
     (if uid (effective_user update) \<noteq> admin_id cfg
      then bind_io (reply_text (message update) Not_authorized None) (\<lambda>_. return_io ())
      else (\<lambda>w.
        let w1 = emit (Db ''users'' Count_documents) w;
            user_count = length (users w);
            w2 = emit (Db ''airtime_requests'' Count_documents) w1;
            total_requests = length (airtime_requests w)
        in bind_io (reply_text (message update) (Bot_statistics user_count total_requests) None)
             (\<lambda>_. return_io ()) w2))"

text \<open>
  The delivery loop of \<^verbatim>\<open>broadcast\<close>: one attempt per user document; a failed
  attempt is logged and the loop goes on.
\<close>

fun broadcast_loop :: "env \<Rightarrow> msg_text \<Rightarrow> user_doc list \<Rightarrow> nat \<Rightarrow> world \<Rightarrow> nat \<times> world" where
  "broadcast_loop en msg [] success w = (success, w)"
| "broadcast_loop en msg (user # rest) success w =
     (let w1 = emit (Send_message (user_id user) msg) w in
      case send_message en (user_id user) msg of
        Inr _ \<Rightarrow> broadcast_loop en msg rest (success + 1) w1
      | Inl e \<Rightarrow> broadcast_loop en msg rest success (emit Log_error w1))"

definition broadcast :: "config \<Rightarrow> env \<Rightarrow> handler_context \<Rightarrow> tg_update \<Rightarrow> unit io" where
  "broadcast cfg en ctx update =
     (if uid (effective_user update) \<noteq> admin_id cfg
      then bind_io (reply_text (message update) No_permission None) (\<lambda>_. return_io ())
      else if args ctx = []
      then bind_io (reply_text (message update) Provide_message None) (\<lambda>_. return_io ())
      else (\<lambda>w.
        let msg = Plain (str_join '' '' (args ctx));
            w1 = emit (Db ''users'' Find) w
        in case broadcast_loop en msg (users w) 0 w1 of
             (success, w2) \<Rightarrow>
               bind_io (reply_text (message update) (Broadcast_sent success) None)
                 (\<lambda>_. return_io ()) w2))"

section \<open>Callback handlers\<close>

definition verify_membership :: "config \<Rightarrow> env \<Rightarrow> handler_context \<Rightarrow> tg_update \<Rightarrow> unit io" where
  "verify_membership cfg en ctx update =
     (case callback_query update of
        None \<Rightarrow> raise_io AttributeError
      | Some query \<Rightarrow>
          (let user_id' = uid (cq_from_user query) in
           bind_io (is_user_member cfg en user_id') (\<lambda>member.
           if member
           then bind_io (edit_text (cq_message query) Verified_text) (\<lambda>_.
                start cfg en ctx update)
           else answer query (Some Not_joined_alert) True)))"

definition PROCESSING_FRAMES :: "msg_text list" where
  "PROCESSING_FRAMES =
     [Processing_frame 15, Processing_frame 30, Processing_frame 45,
      Processing_frame 60, Processing_frame 80, Processing_frame 100]"

fun animation_loop :: "tg_message \<Rightarrow> msg_text list \<Rightarrow> unit io" where
  "animation_loop m [] = return_io ()"
| "animation_loop m (frame # frames) =
     bind_io (asyncio_sleep 1) (\<lambda>_.
     bind_io (edit_text m frame) (\<lambda>_.
     animation_loop m frames))"

definition show_processing_animation :: "tg_callback_query \<Rightarrow> tg_message io" where
  "show_processing_animation query =
     bind_io (case get_item PROCESSING_FRAMES 0 of
                Inl e \<Rightarrow> raise_io e
              | Inr frame \<Rightarrow> reply_text (Some (cq_message query)) frame None) (\<lambda>m.
     bind_io (animation_loop m (drop 1 PROCESSING_FRAMES)) (\<lambda>_.
     return_io m))"

definition handle_airtime_request :: "config \<Rightarrow> env \<Rightarrow> handler_context \<Rightarrow> tg_update \<Rightarrow> unit io" where
  "handle_airtime_request cfg en ctx update =
     (case callback_query update of
        None \<Rightarrow> raise_io AttributeError
      | Some query \<Rightarrow>
          bind_io (answer query None False) (\<lambda>_.
          bind_io (show_processing_animation query) (\<lambda>processing_message.
          case get_item (split_on CHR ''_'' (data query)) 1 of
            Inl e \<Rightarrow> raise_io e
          | Inr network' \<Rightarrow>
              (let amount' = randint en 10 50 * 10 in
               bind_io (add_airtime_request en (uid (cq_from_user query)) network'
                          ''DEMO_PHONE'' amount') (\<lambda>_.
               bind_io (add_transaction en (uid (cq_from_user query)) ''airtime'' amount'
                          ''completed'') (\<lambda>_.
               let keyboard =
                     [[Callback_button Request_again_label (''airtime_'' @ network')],
                      [Callback_button My_stats_label ''my_stats'']]
               in bind_io (delete_message processing_message) (\<lambda>_.
                  bind_io (reply_text (Some (cq_message query))
                             (Request_successful network' amount') (Some keyboard)) (\<lambda>_.
                  return_io ()))))))))"

section \<open>The handlers registered by \<^verbatim>\<open>main\<close>\<close>

datatype handler =
  Start | Profile | Stats | Broadcast | Handle_airtime_request | Verify_membership

definition command_handlers :: "(string \<times> handler) list" where
  "command_handlers =
     [(''start'', Start), (''profile'', Profile), (''stats'', Stats),
      (''broadcast'', Broadcast)]"

text \<open>
  A \<^verbatim>\<open>CommandHandler\<close> built without a filter accepts a command in a new message
  and in an edited message, and compares the lower-cased command name with the names it
  was registered for.
\<close>

definition lower_char :: "char \<Rightarrow> char" where
  "lower_char c =
     (case map_of (zip ''ABCDEFGHIJKLMNOPQRSTUVWXYZ'' ''abcdefghijklmnopqrstuvwxyz'') c of
        None \<Rightarrow> c
      | Some l \<Rightarrow> l)"

definition str_lower :: "string \<Rightarrow> string" where
  "str_lower s = map lower_char s"

text \<open>
  A \<^verbatim>\<open>CallbackQueryHandler\<close> accepts the data that
  \<^verbatim>\<open>re.match\<close> matches against its pattern. Every pattern here is a literal
  between \<^verbatim>\<open>^\<close> and \<^verbatim>\<open>$\<close>, and \<^verbatim>\<open>$\<close> also matches before one
  final newline. The list below holds the literals.
\<close>

definition re_match_anchored :: "string \<Rightarrow> string \<Rightarrow> bool" where
  "re_match_anchored literal s = (s = literal \<or> s = literal @ [CHR 0x0A])"

definition callback_handlers :: "(string \<times> handler) list" where
  "callback_handlers =
     [(''airtime_MTN'', Handle_airtime_request),
      (''airtime_AIRTEL'', Handle_airtime_request),
      (''airtime_GLO'', Handle_airtime_request),
      (''airtime_9MOBILE'', Handle_airtime_request),
      (''verify_membership'', Verify_membership)]"

fun run_handler :: "handler \<Rightarrow> config \<Rightarrow> env \<Rightarrow> handler_context \<Rightarrow> tg_update \<Rightarrow> unit io" where
  "run_handler Start = start"
| "run_handler Profile = profile"
| "run_handler Stats = stats"
| "run_handler Broadcast = broadcast"
| "run_handler Handle_airtime_request = handle_airtime_request"
| "run_handler Verify_membership = verify_membership"

text \<open>The first registered handler that accepts the update runs; none may accept it.\<close>

definition dispatch_command :: "config \<Rightarrow> env \<Rightarrow> tg_message \<Rightarrow> tg_update \<Rightarrow> unit io" where
  "dispatch_command cfg en m update =
     (case find (\<lambda>(name, h). str_lower (command m) = name) command_handlers of
        None \<Rightarrow> return_io ()
      | Some (name, h) \<Rightarrow> run_handler h cfg en \<lparr>args = command_args m\<rparr> update)"

definition process_update :: "config \<Rightarrow> env \<Rightarrow> tg_update \<Rightarrow> unit io" where
  "process_update cfg en update =
     (case update of
        Message_update m \<Rightarrow> dispatch_command cfg en m update
      | Edited_message_update m \<Rightarrow> dispatch_command cfg en m update
      | Callback_update q \<Rightarrow>
          (case find (\<lambda>(literal, h). re_match_anchored literal (data q)) callback_handlers of
             None \<Rightarrow> return_io ()
           | Some (literal, h) \<Rightarrow> run_handler h cfg en \<lparr>args = []\<rparr> update))"

section \<open>Vocabulary of the properties\<close>

subsection \<open>What the membership oracle is to compute\<close>

text \<open>
  A lookup counts for the user when it returns (no exception) one of the statuses of a
  current member, an administrator or the owner; Telegram names the owner's status
  \<^verbatim>\<open>creator\<close>.
\<close>

definition status_ok :: "exn + string \<Rightarrow> bool" where
  "status_ok r =
     (case r of
        Inl e \<Rightarrow> False
      | Inr st \<Rightarrow> st = ''member'' \<or> st = ''administrator'' \<or> st = ''creator'')"

definition lookup_ok :: "env \<Rightarrow> int \<Rightarrow> string \<Rightarrow> bool" where
  "lookup_ok en u channel = status_ok (get_chat_member en (CHR ''@'' # channel) u)"

definition satisfies_memberships :: "config \<Rightarrow> env \<Rightarrow> int \<Rightarrow> bool" where
  "satisfies_memberships cfg en u = list_all (lookup_ok en u) (required_channels cfg)"

text \<open>
  The channels a short-circuiting check looks up: those before the first failing one,
  and the first failing one.
\<close>

definition queried_channels :: "env \<Rightarrow> int \<Rightarrow> string list \<Rightarrow> string list" where
  "queried_channels en u cs =
     takeWhile (lookup_ok en u) cs @ take 1 (dropWhile (lookup_ok en u) cs)"

definition lookup_events :: "env \<Rightarrow> int \<Rightarrow> string \<Rightarrow> event list" where
  "lookup_events en u channel =
     Get_chat_member (CHR ''@'' # channel) u #
       (case get_chat_member en (CHR ''@'' # channel) u of
          Inl e \<Rightarrow> [Log_error]
        | Inr st \<Rightarrow> [])"

definition oracle_events :: "config \<Rightarrow> env \<Rightarrow> int \<Rightarrow> event list" where
  "oracle_events cfg en u =
     concat (map (lookup_events en u) (queried_channels en u (required_channels cfg)))"

fun is_lookup :: "event \<Rightarrow> bool" where
  "is_lookup (Get_chat_member c u) = True"
| "is_lookup e = False"

subsection \<open>Prompt, menu and the other replies\<close>

definition join_markup :: "config \<Rightarrow> markup" where
  "join_markup cfg =
     map (\<lambda>i. [Url_button (Join_label (required_channels cfg ! i)) (channel_links cfg ! i)])
       [0 ..< length (required_channels cfg)]
     @ [[Callback_button Verify_label ''verify_membership'']]"

definition prompt_event :: "config \<Rightarrow> tg_message \<Rightarrow> event" where
  "prompt_event cfg m = Reply_text (chat_id m) Join_prompt (Some (join_markup cfg))"

definition menu_event :: "tg_message \<Rightarrow> event" where
  "menu_event m = Reply_text (chat_id m) Welcome_text (Some feature_menu)"

fun is_reply :: "event \<Rightarrow> bool" where
  "is_reply (Reply_text c t mk) = True"
| "is_reply e = False"

fun is_prompt :: "event \<Rightarrow> bool" where
  "is_prompt (Reply_text c Join_prompt mk) = True"
| "is_prompt e = False"

fun is_menu :: "event \<Rightarrow> bool" where
  "is_menu (Reply_text c Welcome_text mk) = True"
| "is_menu e = False"

fun callback_data :: "button \<Rightarrow> string list" where
  "callback_data (Callback_button l d) = [d]"
| "callback_data (Url_button l url) = []"

text \<open>The networks served: the callback patterns \<^verbatim>\<open>main\<close> routes to the request flow.\<close>

definition airtime_patterns :: "string list" where
  "airtime_patterns = map fst (filter (\<lambda>(d, h). h = Handle_airtime_request) callback_handlers)"

definition profile_text :: "tg_user \<Rightarrow> nat \<Rightarrow> user_doc \<Rightarrow> msg_text" where
  "profile_text user request_count d =
     User_info (uid user) (u_first_name user)
       (case u_username user of None \<Rightarrow> ''N/A'' | Some n \<Rightarrow> if n = [] then ''N/A'' else n)
       request_count (join_date d)"

subsection \<open>The users collection after the upsert\<close>

definition upserted :: "tg_user \<Rightarrow> world \<Rightarrow> user_doc list" where
  "upserted user w = users (snd (add_user user w))"

subsection \<open>The request flow\<close>

definition animation_events :: "tg_callback_query \<Rightarrow> nat \<Rightarrow> event list" where
  "animation_events q i =
     [Reply_text (chat_id (cq_message q)) (Processing_frame 15) None,
      Sleep 1, Edit_text i (Processing_frame 30),
      Sleep 1, Edit_text i (Processing_frame 45),
      Sleep 1, Edit_text i (Processing_frame 60),
      Sleep 1, Edit_text i (Processing_frame 80),
      Sleep 1, Edit_text i (Processing_frame 100)]"

text \<open>The world once the callback is acknowledged and the animation has run.\<close>

definition after_animation :: "tg_callback_query \<Rightarrow> world \<Rightarrow> world" where
  "after_animation q w =
     w\<lparr>clock := clock w + 5, next_message_id := Suc (next_message_id w),
       trace := trace w @ Answer_query None False # animation_events q (next_message_id w)\<rparr>"

definition request_of :: "env \<Rightarrow> tg_callback_query \<Rightarrow> string \<Rightarrow> world \<Rightarrow> airtime_request_doc" where
  "request_of en q net w =
     \<lparr>req_user_id = uid (cq_from_user q), network = net, phone_number = ''DEMO_PHONE'',
      amount = randint en 10 50 * 10, status = ''pending'', timestamp = clock w + 5\<rparr>"

definition transaction_of :: "env \<Rightarrow> tg_callback_query \<Rightarrow> world \<Rightarrow> transaction_doc" where
  "transaction_of en q w =
     \<lparr>tx_user_id = uid (cq_from_user q), tx_type = ''airtime'',
      tx_amount = randint en 10 50 * 10, tx_status = ''completed'', tx_timestamp = clock w + 5\<rparr>"

definition summary_event :: "env \<Rightarrow> tg_callback_query \<Rightarrow> string \<Rightarrow> event" where
  "summary_event en q net =
     Reply_text (chat_id (cq_message q)) (Request_successful net (randint en 10 50 * 10))
       (Some [[Callback_button Request_again_label (''airtime_'' @ net)],
              [Callback_button My_stats_label ''my_stats'']])"

fun shown_to_user :: "event \<Rightarrow> msg_text list" where
  "shown_to_user (Reply_text c t mk) = [t]"
| "shown_to_user (Edit_text i t) = [t]"
| "shown_to_user (Answer_query (Some t) a) = [t]"
| "shown_to_user (Send_message u t) = [t]"
| "shown_to_user e = []"

definition texts_shown :: "event list \<Rightarrow> msg_text list" where
  "texts_shown evs = concat (map shown_to_user evs)"

fun is_delete :: "event \<Rightarrow> bool" where
  "is_delete (Delete_message i) = True"
| "is_delete e = False"

text \<open>The exception of the first of the two inserts that fails, if one does.\<close>

definition first_write_error :: "env \<Rightarrow> exn option" where
  "first_write_error en =
     (case insert_one en ''airtime_requests'' of
        Some e \<Rightarrow> Some e
      | None \<Rightarrow> insert_one en ''transactions'')"

subsection \<open>Admin operations\<close>

definition delivered :: "env \<Rightarrow> msg_text \<Rightarrow> user_doc \<Rightarrow> bool" where
  "delivered en msg d = (case send_message en (user_id d) msg of Inl e \<Rightarrow> False | Inr u \<Rightarrow> True)"

definition delivery_events :: "env \<Rightarrow> msg_text \<Rightarrow> user_doc \<Rightarrow> event list" where
  "delivery_events en msg d =
     Send_message (user_id d) msg # (if delivered en msg d then [] else [Log_error])"

definition broadcast_text :: "handler_context \<Rightarrow> msg_text" where
  "broadcast_text ctx = Plain (str_join '' '' (args ctx))"

fun is_send :: "event \<Rightarrow> bool" where
  "is_send (Send_message u t) = True"
| "is_send e = False"

fun is_db :: "event \<Rightarrow> bool" where
  "is_db (Db c op) = True"
| "is_db e = False"

section \<open>Example inputs\<close>

definition alice :: tg_user where
  "alice = \<lparr>uid = 555, u_username = Some ''alice'', u_first_name = ''Alice'', u_last_name = None\<rparr>"

definition bot_account :: tg_user where
  "bot_account = \<lparr>uid = 42, u_username = Some ''airtime_bot'', u_first_name = ''Airtime'',
     u_last_name = None\<rparr>"

definition demo_config :: config where
  "demo_config = \<lparr>admin_id = 1, required_channels = [''alpha''],
     channel_links = [''https://t.me/alpha'']\<rparr>"

text \<open>
  An environment in which every membership lookup gives the same answer, the user with
  id 3 has blocked the bot, every insert succeeds and the draw is 25.
\<close>

definition demo_env :: "exn + string \<Rightarrow> env" where
  "demo_env lookup_answer =
     \<lparr>get_chat_member = (\<lambda>chat u. lookup_answer),
      send_message = (\<lambda>u t. if u = 3 then Inl TelegramError else Inr ()),
      insert_one = (\<lambda>c. None),
      randint = (\<lambda>a b. 25)\<rparr>"

definition command_message :: "tg_user \<Rightarrow> string \<Rightarrow> string list \<Rightarrow> tg_message" where
  "command_message u c as =
     \<lparr>message_id = 5, chat_id = uid u, from_user = u, command = c, command_args = as\<rparr>"

definition button_press :: "tg_user \<Rightarrow> string \<Rightarrow> tg_callback_query" where
  "button_press u d =
     \<lparr>cq_from_user = u,
      cq_message = \<lparr>message_id = 6, chat_id = uid u, from_user = bot_account,
                    command = [], command_args = []\<rparr>,
      data = d\<rparr>"

definition fresh_world :: world where
  "fresh_world =
     \<lparr>users = [], airtime_requests = [], transactions = [], clock = 1000,
      next_message_id = 7, trace = []\<rparr>"

definition alice_doc :: user_doc where
  "alice_doc =
     \<lparr>user_id = 555, username = Some ''alice'', first_name = ''Alice'', last_name = None,
      balance = 0, requests = 0, join_date = 100\<rparr>"

text \<open>Three known users; the second one (id 3) has blocked the bot.\<close>

definition three_users :: "user_doc list" where
  "three_users =
     [alice_doc\<lparr>user_id := 2\<rparr>, alice_doc\<lparr>user_id := 3\<rparr>, alice_doc\<lparr>user_id := 4\<rparr>]"

section \<open>The membership oracle\<close>

lemma new_events_append [simp]: "new_events w (w\<lparr>trace := trace w @ evs\<rparr>) = evs"
  by (simp add: new_events_def)

lemma queried_channels_Nil [simp]: "queried_channels en u [] = []"
  by (simp add: queried_channels_def)

lemma queried_channels_Cons:
  "queried_channels en u (c # cs) =
     (if lookup_ok en u c then c # queried_channels en u cs else [c])"
  by (simp add: queried_channels_def)

lemma is_user_member_loop_run:
  "is_user_member_loop en u cs w =
     (Inr (list_all (lookup_ok en u) cs),
      w\<lparr>trace := trace w @ concat (map (lookup_events en u) (queried_channels en u cs))\<rparr>)"
proof (induction cs arbitrary: w)
  case Nil
  show ?case by simp
next
  case (Cons c cs)
  show ?case
  proof (cases "get_chat_member en (CHR ''@'' # c) u")
    case (Inl e)
    then show ?thesis
      by (simp add: queried_channels_Cons lookup_ok_def status_ok_def lookup_events_def
          emit_def)
  next
    case (Inr st)
    show ?thesis
    proof (cases "lookup_ok en u c")
      case True
      with Inr show ?thesis
        by (simp add: Cons.IH queried_channels_Cons lookup_ok_def status_ok_def
            lookup_events_def emit_def)
    next
      case False
      with Inr show ?thesis
        by (simp add: queried_channels_Cons lookup_ok_def status_ok_def lookup_events_def
            emit_def)
    qed
  qed
qed

lemma is_user_member_run:
  "is_user_member cfg en u w =
     (Inr (satisfies_memberships cfg en u), w\<lparr>trace := trace w @ oracle_events cfg en u\<rparr>)"
  by (simp add: is_user_member_def is_user_member_loop_run satisfies_memberships_def
      oracle_events_def)

lemma filter_lookup_events [simp]: "filter is_lookup (lookup_events en u c) = [Get_chat_member (CHR ''@'' # c) u]"
  by (simp add: lookup_events_def split: sum.split)

lemma filter_lookup_concat:
  "filter is_lookup (concat (map (lookup_events en u) cs)) =
     map (\<lambda>c. Get_chat_member (CHR ''@'' # c) u) cs"
  by (induction cs) simp_all

lemma filter_lookup_oracle_events:
  "filter is_lookup (oracle_events cfg en u) =
     map (\<lambda>c. Get_chat_member (CHR ''@'' # c) u) (queried_channels en u (required_channels cfg))"
  by (simp add: oracle_events_def filter_lookup_concat)

text \<open>
  C2. \<^verbatim>\<open>is_user_member\<close> always returns, and returns \<open>True\<close> exactly when every
  required channel's lookup reports member, administrator or creator; any other status
  and any exception make it \<open>False\<close>. The lookups it makes are those of the channels up
  to and including the first failing one, in order, and nothing else of the world changes.
\<close>

theorem is_user_member_fails_closed:
  "fst (is_user_member cfg en u w) =
     Inr (list_all (\<lambda>c. status_ok (get_chat_member en (CHR ''@'' # c) u)) (required_channels cfg))
   \<and> filter is_lookup (new_events w (snd (is_user_member cfg en u w))) =
       map (\<lambda>c. Get_chat_member (CHR ''@'' # c) u)
         (takeWhile (lookup_ok en u) (required_channels cfg)
          @ take 1 (dropWhile (lookup_ok en u) (required_channels cfg)))
   \<and> snd (is_user_member cfg en u w) =
       w\<lparr>trace := trace w @ new_events w (snd (is_user_member cfg en u w))\<rparr>"
  by (simp add: is_user_member_run satisfies_memberships_def filter_lookup_oracle_events
      queried_channels_def lookup_ok_def [abs_def])

theorem is_user_member_fails_closed_witness:
  "fst (is_user_member
          (demo_config\<lparr>required_channels := [''alpha'', ''beta'', ''gamma'']\<rparr>)
          ((demo_env (Inr ''member''))\<lparr>get_chat_member :=
             (\<lambda>chat u. if chat = ''@beta'' then Inl TelegramError else Inr ''creator'')\<rparr>)
          555 fresh_world) = Inr False
   \<and> filter is_lookup (new_events fresh_world (snd (is_user_member
          (demo_config\<lparr>required_channels := [''alpha'', ''beta'', ''gamma'']\<rparr>)
          ((demo_env (Inr ''member''))\<lparr>get_chat_member :=
             (\<lambda>chat u. if chat = ''@beta'' then Inl TelegramError else Inr ''creator'')\<rparr>)
          555 fresh_world))) = [Get_chat_member ''@alpha'' 555, Get_chat_member ''@beta'' 555]"
  using is_user_member_fails_closed
    [of "demo_config\<lparr>required_channels := [''alpha'', ''beta'', ''gamma'']\<rparr>"
        "(demo_env (Inr ''member''))\<lparr>get_chat_member :=
             (\<lambda>chat u. if chat = ''@beta'' then Inl TelegramError else Inr ''creator'')\<rparr>"
        555 fresh_world]
  by (simp add: demo_config_def demo_env_def status_ok_def lookup_ok_def)

section \<open>The gated commands\<close>

lemma add_user_run:
  "add_user user w =
     (Inr (), w\<lparr>users := upserted user w, trace := trace w @ [Db ''users'' Update_one]\<rparr>)"
  by (simp add: add_user_def upserted_def emit_def Let_def)

lemma join_rows_run:
  "\<forall>i\<in>set is. i < length (required_channels cfg) \<and> i < length (channel_links cfg) \<Longrightarrow>
   join_rows cfg is =
     Inr (map (\<lambda>i. [Url_button (Join_label (required_channels cfg ! i)) (channel_links cfg ! i)]) is)"
  by (induction "is") (simp_all add: get_item_def)

lemma ask_user_to_join_run:
  assumes "length (required_channels cfg) \<le> length (channel_links cfg)"
  shows "ask_user_to_join cfg (Message_update m) w =
     (Inr (), w\<lparr>next_message_id := Suc (next_message_id w),
                trace := trace w @ [prompt_event cfg m]\<rparr>)"
proof -
  have "join_rows cfg [0 ..< length (required_channels cfg)] =
     Inr (map (\<lambda>i. [Url_button (Join_label (required_channels cfg ! i)) (channel_links cfg ! i)])
            [0 ..< length (required_channels cfg)])"
    using assms by (intro join_rows_run) auto
  then show ?thesis
    by (simp add: ask_user_to_join_def bind_io_def reply_text_def return_io_def emit_def
        prompt_event_def join_markup_def)
qed

lemma start_run:
  assumes "length (required_channels cfg) \<le> length (channel_links cfg)"
  shows "start cfg en ctx (Message_update m) w =
     (Inr (), w\<lparr>users := upserted (from_user m) w,
                next_message_id := Suc (next_message_id w),
                trace := trace w @ Db ''users'' Update_one # oracle_events cfg en (uid (from_user m))
                  @ [if satisfies_memberships cfg en (uid (from_user m)) then menu_event m
                     else prompt_event cfg m]\<rparr>)"
  by (simp add: start_def Let_def bind_io_def add_user_run is_user_member_run
      ask_user_to_join_run [OF assms] reply_text_def return_io_def emit_def menu_event_def)

lemma profile_run_nonmember:
  assumes "length (required_channels cfg) \<le> length (channel_links cfg)"
    and "\<not> satisfies_memberships cfg en (uid (from_user m))"
  shows "profile cfg en ctx (Message_update m) w =
     (Inr (), w\<lparr>next_message_id := Suc (next_message_id w),
                trace := trace w @ oracle_events cfg en (uid (from_user m)) @ [prompt_event cfg m]\<rparr>)"
  using assms(2)
  by (simp add: profile_def Let_def bind_io_def is_user_member_run ask_user_to_join_run [OF assms(1)])

lemma profile_run_member:
  assumes "satisfies_memberships cfg en (uid (from_user m))"
  shows "profile cfg en ctx (Message_update m) w =
     (case find (\<lambda>d. user_id d = uid (from_user m)) (users w) of
        None \<Rightarrow>
          (Inl AttributeError,
           w\<lparr>trace := trace w @ oracle_events cfg en (uid (from_user m))
                @ [Db ''users'' Find_one, Db ''airtime_requests'' Count_documents]\<rparr>)
      | Some d \<Rightarrow>
          (Inr (),
           w\<lparr>next_message_id := Suc (next_message_id w),
             trace := trace w @ oracle_events cfg en (uid (from_user m))
                @ [Db ''users'' Find_one, Db ''airtime_requests'' Count_documents,
                   Reply_text (chat_id m)
                     (profile_text (from_user m)
                        (length (filter (\<lambda>r. req_user_id r = uid (from_user m)) (airtime_requests w))) d)
                     None]\<rparr>))"
  using assms
  by (simp add: profile_def bind_io_def is_user_member_run get_user_stats_def Let_def
      reply_text_def return_io_def raise_io_def emit_def profile_text_def split: option.split)

lemma no_reply_in_oracle_events [simp]: "filter is_reply (oracle_events cfg en u) = []"
  by (simp add: oracle_events_def lookup_events_def filter_concat split: sum.split)

lemma is_reply_prompt [simp]: "is_reply (prompt_event cfg m)" "is_prompt (prompt_event cfg m)"
  "\<not> is_menu (prompt_event cfg m)"
  by (simp_all add: prompt_event_def)

lemma is_reply_menu [simp]: "is_reply (menu_event m)" "is_menu (menu_event m)"
  "\<not> is_prompt (menu_event m)"
  by (simp_all add: menu_event_def)

lemma no_menu_in_oracle_events [simp]: "\<not> list_ex is_menu (oracle_events cfg en u)"
  by (simp add: oracle_events_def lookup_events_def list_ex_iff split: sum.split)

lemma no_prompt_in_oracle_events [simp]: "\<not> list_ex is_prompt (oracle_events cfg en u)"
  by (simp add: oracle_events_def lookup_events_def list_ex_iff split: sum.split)

lemma ask_user_to_join_events:
  "\<exists>r evs. ask_user_to_join cfg update w = (r, w\<lparr>next_message_id := next_message_id w + length evs,
       trace := trace w @ evs\<rparr>) \<and> \<not> list_ex is_menu evs"
proof (cases "join_rows cfg [0 ..< length (required_channels cfg)]")
  case (Inl e)
  then have "ask_user_to_join cfg update w = (Inl e, w\<lparr>next_message_id := next_message_id w + length ([]::event list),
       trace := trace w @ []\<rparr>)"
    by (simp add: ask_user_to_join_def raise_io_def)
  then show ?thesis by (intro exI conjI) (assumption, simp)
next
  case (Inr rows)
  show ?thesis
  proof (cases "message update")
    case None
    with Inr have "ask_user_to_join cfg update w = (Inl AttributeError, w\<lparr>next_message_id := next_message_id w + length ([]::event list),
       trace := trace w @ []\<rparr>)"
      by (simp add: ask_user_to_join_def bind_io_def reply_text_def)
    then show ?thesis by (intro exI conjI) (assumption, simp)
  next
    case (Some m)
    with Inr have "ask_user_to_join cfg update w = (Inr (), w\<lparr>next_message_id := next_message_id w
         + length [Reply_text (chat_id m) Join_prompt (Some (rows @ [[Callback_button Verify_label ''verify_membership'']]))],
       trace := trace w @ [Reply_text (chat_id m) Join_prompt (Some (rows @ [[Callback_button Verify_label ''verify_membership'']]))]\<rparr>)"
      by (simp add: ask_user_to_join_def bind_io_def reply_text_def return_io_def emit_def)
    then show ?thesis by (intro exI conjI) (assumption, simp)
  qed
qed

lemma start_nonmember_no_menu:
  assumes "\<not> satisfies_memberships cfg en (uid (effective_user update))"
  shows "\<not> list_ex is_menu (new_events w (snd (start cfg en ctx update w)))"
proof -
  let ?w2 = "w\<lparr>users := upserted (effective_user update) w,
      trace := trace w @ Db ''users'' Update_one # oracle_events cfg en (uid (effective_user update))\<rparr>"
  obtain r evs where a: "ask_user_to_join cfg update ?w2 =
      (r, ?w2\<lparr>next_message_id := next_message_id ?w2 + length evs, trace := trace ?w2 @ evs\<rparr>)"
    and b: "\<not> list_ex is_menu evs"
    using ask_user_to_join_events [of cfg update ?w2] by blast
  have "start cfg en ctx update w = ask_user_to_join cfg update ?w2"
    using assms by (simp add: start_def Let_def bind_io_def add_user_run is_user_member_run)
  with a b show ?thesis
    by (simp add: new_events_def)
qed

lemma profile_nonmember_no_menu:
  assumes "\<not> satisfies_memberships cfg en (uid (effective_user update))"
  shows "\<not> list_ex is_menu (new_events w (snd (profile cfg en ctx update w)))"
proof -
  let ?w2 = "w\<lparr>trace := trace w @ oracle_events cfg en (uid (effective_user update))\<rparr>"
  obtain r evs where a: "ask_user_to_join cfg update ?w2 =
      (r, ?w2\<lparr>next_message_id := next_message_id ?w2 + length evs, trace := trace ?w2 @ evs\<rparr>)"
    and b: "\<not> list_ex is_menu evs"
    using ask_user_to_join_events [of cfg update ?w2] by blast
  have "profile cfg en ctx update w = ask_user_to_join cfg update ?w2"
    using assms by (simp add: profile_def Let_def bind_io_def is_user_member_run)
  with a b show ?thesis
    by (simp add: new_events_def)
qed

lemma start_member_no_prompt:
  assumes "satisfies_memberships cfg en (uid (effective_user update))"
  shows "\<not> list_ex is_prompt (new_events w (snd (start cfg en ctx update w)))"
  using assms
  by (cases "message update")
    (simp_all add: start_def Let_def bind_io_def add_user_run is_user_member_run reply_text_def
      return_io_def emit_def new_events_def)

lemma profile_member_no_prompt_no_menu:
  assumes "satisfies_memberships cfg en (uid (effective_user update))"
  shows "\<not> list_ex is_prompt (new_events w (snd (profile cfg en ctx update w)))
       \<and> \<not> list_ex is_menu (new_events w (snd (profile cfg en ctx update w)))"
  using assms
  by (cases "message update"; cases "find (\<lambda>d. user_id d = uid (effective_user update)) (users w)")
    (simp_all add: profile_def Let_def bind_io_def is_user_member_run get_user_stats_def
      reply_text_def return_io_def raise_io_def emit_def new_events_def)

lemma message_Some: "message update = Some m \<Longrightarrow> update = Message_update m"
  by (cases update) simp_all


lemma start_run_member:
  assumes "satisfies_memberships cfg en (uid (from_user m))"
  shows "start cfg en ctx (Message_update m) w =
     (Inr (), w\<lparr>users := upserted (from_user m) w,
                next_message_id := Suc (next_message_id w),
                trace := trace w @ Db ''users'' Update_one # oracle_events cfg en (uid (from_user m))
                  @ [menu_event m]\<rparr>)"
  using assms
  by (simp add: start_def Let_def bind_io_def add_user_run is_user_member_run
      reply_text_def return_io_def emit_def menu_event_def)

text \<open>
  C1, as the code has it. For every update that reaches a gated command: when the user
  does not satisfy every required membership, neither the entry command nor the profile
  command sends the feature menu; when the user satisfies every required membership,
  neither sends the verification prompt, and the profile command does not send the
  feature menu either. For a command that arrives as a new message: a user who is not a
  member gets, given a join link for every required channel, exactly one reply from
  either command, the verification prompt (one join button per required channel and the
  Verify button); a member gets exactly one reply from the entry command, the feature
  menu, whose choices are the networks the request flow is registered for, and from the
  profile command, when the user's record exists, exactly one reply, the profile summary.
\<close>

theorem gated_command_outcome:
  "(\<not> satisfies_memberships cfg en (uid (effective_user update)) \<longrightarrow>
       \<not> list_ex is_menu (new_events w (snd (start cfg en ctx update w)))
     \<and> \<not> list_ex is_menu (new_events w (snd (profile cfg en ctx update w)))
     \<and> (message update = Some m
          \<and> length (required_channels cfg) \<le> length (channel_links cfg) \<longrightarrow>
          fst (start cfg en ctx update w) = Inr ()
        \<and> filter is_reply (new_events w (snd (start cfg en ctx update w))) = [prompt_event cfg m]
        \<and> fst (profile cfg en ctx update w) = Inr ()
        \<and> filter is_reply (new_events w (snd (profile cfg en ctx update w))) = [prompt_event cfg m]))
  \<and> (satisfies_memberships cfg en (uid (effective_user update)) \<longrightarrow>
       \<not> list_ex is_prompt (new_events w (snd (start cfg en ctx update w)))
     \<and> \<not> list_ex is_prompt (new_events w (snd (profile cfg en ctx update w)))
     \<and> \<not> list_ex is_menu (new_events w (snd (profile cfg en ctx update w)))
     \<and> (message update = Some m \<longrightarrow>
          fst (start cfg en ctx update w) = Inr ()
        \<and> filter is_reply (new_events w (snd (start cfg en ctx update w))) = [menu_event m]
        \<and> (\<forall>d. find (\<lambda>d. user_id d = uid (effective_user update)) (users w) = Some d \<longrightarrow>
              fst (profile cfg en ctx update w) = Inr ()
            \<and> filter is_reply (new_events w (snd (profile cfg en ctx update w))) =
                [Reply_text (chat_id m)
                   (profile_text (effective_user update)
                      (length (filter (\<lambda>r. req_user_id r = uid (effective_user update))
                                 (airtime_requests w))) d)
                   None])))
  \<and> is_prompt (prompt_event cfg m) \<and> \<not> is_menu (prompt_event cfg m)
  \<and> is_menu (menu_event m) \<and> \<not> is_prompt (menu_event m)
  \<and> length (join_markup cfg) = Suc (length (required_channels cfg))
  \<and> concat (map callback_data (concat feature_menu)) = airtime_patterns"
proof -
  have menu: "concat (map callback_data (concat feature_menu)) = airtime_patterns"
    by (simp add: feature_menu_def airtime_patterns_def callback_handlers_def)
  have len: "length (join_markup cfg) = Suc (length (required_channels cfg))"
    by (simp add: join_markup_def)
  have non: "fst (start cfg en ctx update w) = Inr ()
        \<and> filter is_reply (new_events w (snd (start cfg en ctx update w))) = [prompt_event cfg m]
        \<and> fst (profile cfg en ctx update w) = Inr ()
        \<and> filter is_reply (new_events w (snd (profile cfg en ctx update w))) = [prompt_event cfg m]"
    if "\<not> satisfies_memberships cfg en (uid (effective_user update))"
      and "message update = Some m"
      and links: "length (required_channels cfg) \<le> length (channel_links cfg)"
  proof -
    from that(2) have u: "update = Message_update m" by (rule message_Some)
    with that(1) show ?thesis
      by (simp add: start_run [OF links] profile_run_nonmember [OF links] new_events_def)
  qed
  have mem: "fst (start cfg en ctx update w) = Inr ()
        \<and> filter is_reply (new_events w (snd (start cfg en ctx update w))) = [menu_event m]
        \<and> (\<forall>d. find (\<lambda>d. user_id d = uid (effective_user update)) (users w) = Some d \<longrightarrow>
              fst (profile cfg en ctx update w) = Inr ()
            \<and> filter is_reply (new_events w (snd (profile cfg en ctx update w))) =
                [Reply_text (chat_id m)
                   (profile_text (effective_user update)
                      (length (filter (\<lambda>r. req_user_id r = uid (effective_user update))
                                 (airtime_requests w))) d)
                   None])"
    if "satisfies_memberships cfg en (uid (effective_user update))"
      and "message update = Some m"
  proof -
    from that(2) have u: "update = Message_update m" by (rule message_Some)
    with that(1) show ?thesis
      by (simp add: start_run_member profile_run_member new_events_def)
  qed
  show ?thesis
    using menu len non mem start_nonmember_no_menu [of cfg en update w ctx]
      profile_nonmember_no_menu [of cfg en update w ctx]
      start_member_no_prompt [of cfg en update w ctx]
      profile_member_no_prompt_no_menu [of cfg en update w ctx]
    by simp
qed

theorem gated_command_outcome_witness:
  "length (required_channels demo_config) \<le> length (channel_links demo_config)
   \<and> \<not> satisfies_memberships demo_config (demo_env (Inr ''left'')) 555
   \<and> filter is_reply (new_events fresh_world
         (snd (start demo_config (demo_env (Inr ''left'')) \<lparr>args = []\<rparr>
                 (Message_update (command_message alice ''start'' [])) fresh_world))) =
       [Reply_text 555 Join_prompt
          (Some [[Url_button (Join_label ''alpha'') ''https://t.me/alpha''],
                 [Callback_button Verify_label ''verify_membership'']])]
   \<and> filter is_reply (new_events fresh_world
         (snd (profile demo_config (demo_env (Inr ''left'')) \<lparr>args = []\<rparr>
                 (Message_update (command_message alice ''profile'' [])) fresh_world))) =
       [Reply_text 555 Join_prompt
          (Some [[Url_button (Join_label ''alpha'') ''https://t.me/alpha''],
                 [Callback_button Verify_label ''verify_membership'']])]
   \<and> \<not> list_ex is_menu (new_events fresh_world
         (snd (start demo_config (demo_env (Inr ''left'')) \<lparr>args = []\<rparr>
                 (Edited_message_update (command_message alice ''start'' [])) fresh_world)))
   \<and> satisfies_memberships demo_config (demo_env (Inr ''member'')) 555
   \<and> filter is_reply (new_events fresh_world
         (snd (start demo_config (demo_env (Inr ''member'')) \<lparr>args = []\<rparr>
                 (Message_update (command_message alice ''start'' [])) fresh_world))) =
       [Reply_text 555 Welcome_text (Some feature_menu)]
   \<and> filter is_reply (new_events (fresh_world\<lparr>users := [alice_doc]\<rparr>)
         (snd (profile demo_config (demo_env (Inr ''member'')) \<lparr>args = []\<rparr>
                 (Message_update (command_message alice ''profile'' []))
                 (fresh_world\<lparr>users := [alice_doc]\<rparr>)))) =
       [Reply_text 555 (User_info 555 ''Alice'' ''alice'' 0 100) None]"
  using
    gated_command_outcome [where cfg = demo_config and en = "demo_env (Inr ''left'')"
      and update = "Message_update (command_message alice ''start'' [])"
      and m = "command_message alice ''start'' []" and ctx = "\<lparr>args = []\<rparr>"
      and w = fresh_world]
    gated_command_outcome [where cfg = demo_config and en = "demo_env (Inr ''left'')"
      and update = "Message_update (command_message alice ''profile'' [])"
      and m = "command_message alice ''profile'' []" and ctx = "\<lparr>args = []\<rparr>"
      and w = fresh_world]
    gated_command_outcome [where cfg = demo_config and en = "demo_env (Inr ''left'')"
      and update = "Edited_message_update (command_message alice ''start'' [])"
      and m = "command_message alice ''start'' []" and ctx = "\<lparr>args = []\<rparr>"
      and w = fresh_world]
    gated_command_outcome [where cfg = demo_config and en = "demo_env (Inr ''member'')"
      and update = "Message_update (command_message alice ''start'' [])"
      and m = "command_message alice ''start'' []" and ctx = "\<lparr>args = []\<rparr>"
      and w = fresh_world]
    gated_command_outcome [where cfg = demo_config and en = "demo_env (Inr ''member'')"
      and update = "Message_update (command_message alice ''profile'' [])"
      and m = "command_message alice ''profile'' []" and ctx = "\<lparr>args = []\<rparr>"
      and w = "fresh_world\<lparr>users := [alice_doc]\<rparr>"]
  by (simp add: demo_config_def demo_env_def satisfies_memberships_def lookup_ok_def
      status_ok_def command_message_def alice_def alice_doc_def fresh_world_def
      prompt_event_def menu_event_def join_markup_def profile_text_def)

text \<open>
  C1 as stated fails for the profile command: for a member it sends the profile summary,
  not the feature menu.
\<close>

theorem profile_member_shows_no_menu:
  "satisfies_memberships demo_config (demo_env (Inr ''member'')) 555
   \<and> fst (profile demo_config (demo_env (Inr ''member'')) \<lparr>args = []\<rparr>
            (Message_update (command_message alice ''profile'' []))
            (fresh_world\<lparr>users := [alice_doc]\<rparr>)) = Inr ()
   \<and> trace (snd (profile demo_config (demo_env (Inr ''member'')) \<lparr>args = []\<rparr>
            (Message_update (command_message alice ''profile'' []))
            (fresh_world\<lparr>users := [alice_doc]\<rparr>))) =
       [Get_chat_member ''@alpha'' 555, Db ''users'' Find_one,
        Db ''airtime_requests'' Count_documents,
        Reply_text 555 (User_info 555 ''Alice'' ''alice'' 0 100) None]
   \<and> \<not> list_ex is_menu (trace (snd (profile demo_config (demo_env (Inr ''member'')) \<lparr>args = []\<rparr>
            (Message_update (command_message alice ''profile'' []))
            (fresh_world\<lparr>users := [alice_doc]\<rparr>))))"
  by (simp add: profile_def Let_def bind_io_def is_user_member_def get_user_stats_def
      reply_text_def return_io_def emit_def demo_config_def demo_env_def
      satisfies_memberships_def lookup_ok_def status_ok_def command_message_def alice_def
      alice_doc_def fresh_world_def)

section \<open>The request flow\<close>

lemma show_processing_animation_run:
  "show_processing_animation q w =
     (Inr ((cq_message q)\<lparr>message_id := next_message_id w, command := [], command_args := []\<rparr>),
      w\<lparr>clock := clock w + 5, next_message_id := Suc (next_message_id w),
        trace := trace w @ animation_events q (next_message_id w)\<rparr>)"
  by (simp add: show_processing_animation_def PROCESSING_FRAMES_def get_item_def bind_io_def
      reply_text_def asyncio_sleep_def edit_text_def return_io_def emit_def animation_events_def)

lemma handle_airtime_request_run:
  "handle_airtime_request cfg en ctx (Callback_update q) w =
     (case get_item (split_on CHR ''_'' (data q)) 1 of
        Inl e \<Rightarrow> (Inl e, after_animation q w)
      | Inr net \<Rightarrow>
          (case insert_one en ''airtime_requests'' of
             Some e \<Rightarrow>
               (Inl e, (after_animation q w)
                  \<lparr>trace := trace (after_animation q w) @ [Db ''airtime_requests'' Insert_one]\<rparr>)
           | None \<Rightarrow>
               (case insert_one en ''transactions'' of
                  Some e \<Rightarrow>
                    (Inl e, (after_animation q w)
                       \<lparr>airtime_requests := airtime_requests w @ [request_of en q net w],
                         trace := trace (after_animation q w) @
                           [Db ''airtime_requests'' Insert_one, Db ''transactions'' Insert_one]\<rparr>)
                | None \<Rightarrow>
                    (Inr (), (after_animation q w)
                       \<lparr>airtime_requests := airtime_requests w @ [request_of en q net w],
                         transactions := transactions w @ [transaction_of en q w],
                         next_message_id := Suc (Suc (next_message_id w)),
                         trace := trace (after_animation q w) @
                           [Db ''airtime_requests'' Insert_one, Db ''transactions'' Insert_one,
                            Delete_message (next_message_id w), summary_event en q net]\<rparr>))))"
  by (simp add: handle_airtime_request_def bind_io_def answer_def show_processing_animation_run
      add_airtime_request_def add_transaction_def delete_message_def reply_text_def
      return_io_def raise_io_def emit_def Let_def after_animation_def request_of_def
      transaction_of_def summary_event_def
      split: sum.split option.split)

lemma handle_airtime_request_message:
  "callback_query update = None \<Longrightarrow>
   handle_airtime_request cfg en ctx update w = (Inl AttributeError, w)"
  by (simp add: handle_airtime_request_def raise_io_def)

lemma callback_query_Some: "callback_query update = Some q \<Longrightarrow> update = Callback_update q"
  by (cases update) simp_all


lemma texts_shown_simps [simp]:
  "texts_shown [] = []"
  "texts_shown (e # evs) = shown_to_user e @ texts_shown evs"
  "texts_shown (evs @ evs') = texts_shown evs @ texts_shown evs'"
  by (simp_all add: texts_shown_def)

lemma texts_shown_animation [simp]: "texts_shown (animation_events q i) = PROCESSING_FRAMES"
  by (simp add: animation_events_def PROCESSING_FRAMES_def)

lemma no_delete_animation [simp]: "\<not> list_ex is_delete (animation_events q i)"
  by (simp add: animation_events_def)

lemma no_lookup_animation [simp]: "\<not> list_ex is_lookup (animation_events q i)"
  by (simp add: animation_events_def)

text \<open>
  C3. When one run of the request flow completes, and the draw respects the contract of
  \<^verbatim>\<open>random.randint(10, 50)\<close>, the run has appended exactly one AirtimeRequest and
  exactly one Transaction. Both carry the id of the user who pressed the button and a
  timestamp not earlier than the clock at the start of the flow; the amount lies between
  100 and 500 and is a multiple of 10; the request's status is \<^verbatim>\<open>pending\<close> and the
  transaction's is \<^verbatim>\<open>completed\<close>.
\<close>

theorem completed_flow_records:
  assumes completed: "fst (handle_airtime_request cfg en ctx update w) = Inr ()"
    and lo: "10 \<le> randint en 10 50"
    and hi: "randint en 10 50 \<le> 50"
  shows "\<exists>r t.
      airtime_requests (snd (handle_airtime_request cfg en ctx update w)) = airtime_requests w @ [r]
    \<and> transactions (snd (handle_airtime_request cfg en ctx update w)) = transactions w @ [t]
    \<and> req_user_id r = uid (effective_user update)
    \<and> tx_user_id t = uid (effective_user update)
    \<and> clock w \<le> timestamp r
    \<and> clock w \<le> tx_timestamp t
    \<and> 100 \<le> amount r \<and> amount r \<le> 500 \<and> amount r mod 10 = 0
    \<and> tx_amount t = amount r
    \<and> status r = ''pending''
    \<and> tx_status t = ''completed''"
proof (cases "callback_query update")
  case None
  with completed show ?thesis
    by (simp add: handle_airtime_request_message)
next
  case (Some q)
  then have Callback_update: "update = Callback_update q"
    by (rule callback_query_Some)
  from completed Callback_update obtain net where
    net: "get_item (split_on CHR ''_'' (data q)) 1 = Inr net"
    and ok1: "insert_one en ''airtime_requests'' = None"
    and ok2: "insert_one en ''transactions'' = None"
    by (auto simp add: handle_airtime_request_run split: sum.splits option.splits)
  let ?r = "request_of en q net w" and ?t = "transaction_of en q w"
  have run: "snd (handle_airtime_request cfg en ctx (Callback_update q) w) =
      (after_animation q w)
        \<lparr>airtime_requests := airtime_requests w @ [?r],
          transactions := transactions w @ [?t],
          next_message_id := Suc (Suc (next_message_id w)),
          trace := trace (after_animation q w) @
            [Db ''airtime_requests'' Insert_one, Db ''transactions'' Insert_one,
             Delete_message (next_message_id w), summary_event en q net]\<rparr>"
    using net ok1 ok2 by (simp add: handle_airtime_request_run)
  have amt: "100 \<le> amount ?r \<and> amount ?r \<le> 500 \<and> amount ?r mod 10 = 0"
    using lo hi by (simp add: request_of_def)
  have all: "airtime_requests (snd (handle_airtime_request cfg en ctx update w)) = airtime_requests w @ [?r]
    \<and> transactions (snd (handle_airtime_request cfg en ctx update w)) = transactions w @ [?t]
    \<and> req_user_id ?r = uid (effective_user update)
    \<and> tx_user_id ?t = uid (effective_user update)
    \<and> clock w \<le> timestamp ?r
    \<and> clock w \<le> tx_timestamp ?t
    \<and> 100 \<le> amount ?r \<and> amount ?r \<le> 500 \<and> amount ?r mod 10 = 0
    \<and> tx_amount ?t = amount ?r
    \<and> status ?r = ''pending''
    \<and> tx_status ?t = ''completed''"
    using amt by (simp add: Callback_update run request_of_def transaction_of_def)
  show ?thesis
    by (rule exI [of _ ?r], rule exI [of _ ?t], rule all)
qed

theorem completed_flow_records_witness:
  "fst (handle_airtime_request demo_config (demo_env (Inr ''left'')) \<lparr>args = []\<rparr>
          (Callback_update (button_press alice ''airtime_MTN'')) fresh_world) = Inr ()
   \<and> 10 \<le> randint (demo_env (Inr ''left'')) 10 50
   \<and> randint (demo_env (Inr ''left'')) 10 50 \<le> 50
   \<and> airtime_requests (snd (handle_airtime_request demo_config (demo_env (Inr ''left''))
          \<lparr>args = []\<rparr> (Callback_update (button_press alice ''airtime_MTN'')) fresh_world)) =
       [\<lparr>req_user_id = 555, network = ''MTN'', phone_number = ''DEMO_PHONE'', amount = 250,
         status = ''pending'', timestamp = 1005\<rparr>]
   \<and> transactions (snd (handle_airtime_request demo_config (demo_env (Inr ''left''))
          \<lparr>args = []\<rparr> (Callback_update (button_press alice ''airtime_MTN'')) fresh_world)) =
       [\<lparr>tx_user_id = 555, tx_type = ''airtime'', tx_amount = 250, tx_status = ''completed'',
         tx_timestamp = 1005\<rparr>]"
  using completed_flow_records [of demo_config "demo_env (Inr ''left'')" "\<lparr>args = []\<rparr>"
      "Callback_update (button_press alice ''airtime_MTN'')" fresh_world]
  by (simp add: handle_airtime_request_run get_item_def demo_env_def button_press_def alice_def
      fresh_world_def after_animation_def request_of_def transaction_of_def)

text \<open>
  C5. The request flow does not depend on membership: replacing the platform's
  membership lookup by any other (and the configuration by any other) leaves result,
  persisted records and messages the same; the flow makes no membership lookup at all;
  and \<^verbatim>\<open>main\<close> routes every \<^verbatim>\<open>airtime_N\<close> button press straight to it.
\<close>

theorem airtime_flow_ignores_membership:
  "handle_airtime_request cfg (en\<lparr>get_chat_member := g\<rparr>) ctx update w =
     handle_airtime_request cfg' en ctx update w
   \<and> \<not> list_ex is_lookup (new_events w (snd (handle_airtime_request cfg en ctx update w)))
   \<and> (data q \<in> set airtime_patterns \<longrightarrow>
        process_update cfg (en\<lparr>get_chat_member := g\<rparr>) (Callback_update q) w =
          process_update cfg en (Callback_update q) w
      \<and> process_update cfg en (Callback_update q) w =
          handle_airtime_request cfg en \<lparr>args = []\<rparr> (Callback_update q) w)"
proof -
  have same: "handle_airtime_request c1 (en\<lparr>get_chat_member := g\<rparr>) cx upd w =
      handle_airtime_request c2 en cx upd w" for c1 c2 upd cx
    by (cases upd)
      (simp_all add: handle_airtime_request_def add_airtime_request_def add_transaction_def
        bind_io_def Let_def split: sum.split prod.split)
  have quiet: "\<not> list_ex is_lookup (new_events w (snd (handle_airtime_request cfg en ctx update w)))"
  proof (cases "callback_query update")
    case None
    then show ?thesis by (simp add: handle_airtime_request_message new_events_def)
  next
    case (Some q')
    then have "update = Callback_update q'"
      by (rule callback_query_Some)
    then show ?thesis
      by (simp add: handle_airtime_request_run after_animation_def new_events_def summary_event_def
          split: sum.split option.split)
  qed
  have route: "data q \<in> set airtime_patterns \<Longrightarrow>
      process_update c e (Callback_update q) w =
        handle_airtime_request c e \<lparr>args = []\<rparr> (Callback_update q) w" for c e
    by (auto simp add: process_update_def airtime_patterns_def callback_handlers_def
        re_match_anchored_def)
  show ?thesis
    using same [where ?c1.0 = cfg and ?c2.0 = cfg' and upd = update and cx = ctx] quiet
      route [of cfg en] route [of cfg "en\<lparr>get_chat_member := g\<rparr>"]
      same [where ?c1.0 = cfg and ?c2.0 = cfg and upd = "Callback_update q"
        and cx = "\<lparr>args = []\<rparr>"]
    by simp
qed

theorem airtime_flow_ignores_membership_witness:
  "''airtime_GLO'' \<in> set airtime_patterns
   \<and> \<not> satisfies_memberships demo_config (demo_env (Inr ''left'')) 555
   \<and> satisfies_memberships demo_config (demo_env (Inr ''member'')) 555
   \<and> process_update demo_config (demo_env (Inr ''left''))
         (Callback_update (button_press alice ''airtime_GLO'')) fresh_world =
       process_update demo_config (demo_env (Inr ''member''))
         (Callback_update (button_press alice ''airtime_GLO'')) fresh_world
   \<and> fst (process_update demo_config (demo_env (Inr ''left''))
         (Callback_update (button_press alice ''airtime_GLO'')) fresh_world) = Inr ()"
proof -
  have e: "demo_env (Inr ''left'') = (demo_env (Inr ''member''))\<lparr>get_chat_member := (\<lambda>c u. Inr ''left'')\<rparr>"
    by (simp add: demo_env_def)
  have p: "data (button_press alice ''airtime_GLO'') \<in> set airtime_patterns"
    by (simp add: button_press_def airtime_patterns_def callback_handlers_def)
  have d: "fst (handle_airtime_request demo_config (demo_env (Inr ''member'')) \<lparr>args = []\<rparr>
         (Callback_update (button_press alice ''airtime_GLO'')) fresh_world) = Inr ()"
    by (simp add: handle_airtime_request_run get_item_def demo_env_def button_press_def)
  show ?thesis
    using airtime_flow_ignores_membership [where cfg = demo_config
        and en = "demo_env (Inr ''member'')" and g = "\<lambda>c u. Inr ''left''"
        and ctx = "\<lparr>args = []\<rparr>"
        and update = "Callback_update (button_press alice ''airtime_GLO'')"
        and w = fresh_world and cfg' = demo_config
        and q = "button_press alice ''airtime_GLO''"] p d
    by (simp add: e [symmetric] satisfies_memberships_def lookup_ok_def status_ok_def
        demo_config_def) (simp add: demo_env_def airtime_patterns_def callback_handlers_def)
qed

text \<open>
  Every data that \<^verbatim>\<open>main\<close> routes to the request flow has a network after its
  underscore, so the flow reaches the two inserts.
\<close>

lemma routed_data_has_network:
  assumes "find (\<lambda>(literal, h). re_match_anchored literal d) callback_handlers =
      Some (p, Handle_airtime_request)"
  shows "\<exists>net. get_item (split_on CHR ''_'' d) 1 = Inr net"
proof -
  from assms have "d \<in> {''airtime_MTN'', ''airtime_MTN'' @ [CHR 0x0A],
      ''airtime_AIRTEL'', ''airtime_AIRTEL'' @ [CHR 0x0A],
      ''airtime_GLO'', ''airtime_GLO'' @ [CHR 0x0A],
      ''airtime_9MOBILE'', ''airtime_9MOBILE'' @ [CHR 0x0A]}"
    by (auto simp add: callback_handlers_def re_match_anchored_def split: if_splits)
  then show ?thesis
    by (auto simp add: get_item_def)
qed

text \<open>
  C10, as the code has it. When the flow reaches the inserts and the AirtimeRequest
  insert or the Transaction insert fails, the handler raises the exception of the insert
  that failed: the flow does not complete and emits no success summary. It shows no
  failure either: the texts the user has been shown are exactly the six progress frames,
  and the progress message is not removed. No Transaction is recorded; the AirtimeRequest
  is recorded exactly when its own insert succeeded.
\<close>

theorem failed_write_aborts_flow:
  assumes "get_item (split_on CHR ''_'' (data q)) 1 = Inr net"
    and "first_write_error en = Some e"
  shows "fst (handle_airtime_request cfg en ctx (Callback_update q) w) = Inl e
    \<and> texts_shown (new_events w (snd (handle_airtime_request cfg en ctx (Callback_update q) w))) =
        PROCESSING_FRAMES
    \<and> \<not> list_ex is_delete (new_events w (snd (handle_airtime_request cfg en ctx (Callback_update q) w)))
    \<and> transactions (snd (handle_airtime_request cfg en ctx (Callback_update q) w)) = transactions w
    \<and> airtime_requests (snd (handle_airtime_request cfg en ctx (Callback_update q) w)) =
        (if insert_one en ''airtime_requests'' = None
         then airtime_requests w @ [request_of en q net w] else airtime_requests w)"
proof (cases "insert_one en ''airtime_requests''")
  case None
  with assms show ?thesis
    by (simp add: handle_airtime_request_run after_animation_def new_events_def
        first_write_error_def)
next
  case (Some e')
  with assms show ?thesis
    by (simp add: handle_airtime_request_run after_animation_def new_events_def
        first_write_error_def)
qed

theorem failed_write_aborts_flow_witness:
  "get_item (split_on CHR ''_'' (data (button_press alice ''airtime_MTN''))) 1 = Inr ''MTN''
   \<and> first_write_error ((demo_env (Inr ''member''))\<lparr>insert_one :=
       (\<lambda>c. if c = ''transactions'' then Some PyMongoError else None)\<rparr>) = Some PyMongoError
   \<and> fst (handle_airtime_request demo_config
        ((demo_env (Inr ''member''))\<lparr>insert_one :=
           (\<lambda>c. if c = ''transactions'' then Some PyMongoError else None)\<rparr>)
        \<lparr>args = []\<rparr> (Callback_update (button_press alice ''airtime_MTN'')) fresh_world) =
       Inl PyMongoError
   \<and> texts_shown (new_events fresh_world (snd (handle_airtime_request demo_config
        ((demo_env (Inr ''member''))\<lparr>insert_one :=
           (\<lambda>c. if c = ''transactions'' then Some PyMongoError else None)\<rparr>)
        \<lparr>args = []\<rparr> (Callback_update (button_press alice ''airtime_MTN'')) fresh_world))) =
       PROCESSING_FRAMES
   \<and> transactions (snd (handle_airtime_request demo_config
        ((demo_env (Inr ''member''))\<lparr>insert_one :=
           (\<lambda>c. if c = ''transactions'' then Some PyMongoError else None)\<rparr>)
        \<lparr>args = []\<rparr> (Callback_update (button_press alice ''airtime_MTN'')) fresh_world)) = []
   \<and> airtime_requests (snd (handle_airtime_request demo_config
        ((demo_env (Inr ''member''))\<lparr>insert_one :=
           (\<lambda>c. if c = ''transactions'' then Some PyMongoError else None)\<rparr>)
        \<lparr>args = []\<rparr> (Callback_update (button_press alice ''airtime_MTN'')) fresh_world)) =
       [\<lparr>req_user_id = 555, network = ''MTN'', phone_number = ''DEMO_PHONE'', amount = 250,
         status = ''pending'', timestamp = 1005\<rparr>]"
  using failed_write_aborts_flow [where q = "button_press alice ''airtime_MTN''"
      and net = "''MTN''" and e = PyMongoError and cfg = demo_config
      and ctx = "\<lparr>args = []\<rparr>" and w = fresh_world
      and en = "(demo_env (Inr ''member''))\<lparr>insert_one :=
         (\<lambda>c. if c = ''transactions'' then Some PyMongoError else None)\<rparr>"]
  by (simp add: get_item_def button_press_def demo_env_def fresh_world_def
      first_write_error_def request_of_def alice_def)

text \<open>
  C10 as stated fails: with a failing insert the handler raises the storage exception
  right after the last progress frame and nothing more reaches the user.
\<close>

theorem failed_insert_shows_no_failure:
  "fst (handle_airtime_request demo_config
        ((demo_env (Inr ''member''))\<lparr>insert_one := (\<lambda>c. Some PyMongoError)\<rparr>)
        \<lparr>args = []\<rparr> (Callback_update (button_press alice ''airtime_MTN'')) fresh_world) =
     Inl PyMongoError
   \<and> trace (snd (handle_airtime_request demo_config
        ((demo_env (Inr ''member''))\<lparr>insert_one := (\<lambda>c. Some PyMongoError)\<rparr>)
        \<lparr>args = []\<rparr> (Callback_update (button_press alice ''airtime_MTN'')) fresh_world)) =
       [Answer_query None False,
        Reply_text 555 (Processing_frame 15) None,
        Sleep 1, Edit_text 7 (Processing_frame 30),
        Sleep 1, Edit_text 7 (Processing_frame 45),
        Sleep 1, Edit_text 7 (Processing_frame 60),
        Sleep 1, Edit_text 7 (Processing_frame 80),
        Sleep 1, Edit_text 7 (Processing_frame 100),
        Db ''airtime_requests'' Insert_one]
   \<and> texts_shown (trace (snd (handle_airtime_request demo_config
        ((demo_env (Inr ''member''))\<lparr>insert_one := (\<lambda>c. Some PyMongoError)\<rparr>)
        \<lparr>args = []\<rparr> (Callback_update (button_press alice ''airtime_MTN'')) fresh_world))) =
       PROCESSING_FRAMES"
  by (simp add: handle_airtime_request_run get_item_def button_press_def demo_env_def
      fresh_world_def after_animation_def animation_events_def alice_def PROCESSING_FRAMES_def)

section \<open>Admin operations\<close>

lemma stats_denied_run:
  assumes "uid (effective_user update) \<noteq> admin_id cfg"
  shows "stats cfg en ctx update w =
     (case message update of
        None \<Rightarrow> (Inl AttributeError, w)
      | Some m \<Rightarrow>
          (Inr (), w\<lparr>next_message_id := Suc (next_message_id w),
                     trace := trace w @ [Reply_text (chat_id m) Not_authorized None]\<rparr>))"
  using assms
  by (simp add: stats_def bind_io_def reply_text_def return_io_def emit_def split: option.split)

lemma broadcast_denied_run:
  assumes "uid (effective_user update) \<noteq> admin_id cfg"
  shows "broadcast cfg en ctx update w =
     (case message update of
        None \<Rightarrow> (Inl AttributeError, w)
      | Some m \<Rightarrow>
          (Inr (), w\<lparr>next_message_id := Suc (next_message_id w),
                     trace := trace w @ [Reply_text (chat_id m) No_permission None]\<rparr>))"
  using assms
  by (simp add: broadcast_def bind_io_def reply_text_def return_io_def emit_def split: option.split)

text \<open>
  A command sent as a new message by a caller who is not the configured admin:
  \<^verbatim>\<open>stats\<close> and \<^verbatim>\<open>broadcast\<close> each return after one reply, the denial,
  and do nothing else: no collection is read or counted, no message is sent to any user,
  and users, requests and transactions are as before.
\<close>

theorem non_admin_denied_without_effect:
  assumes "uid (from_user m) \<noteq> admin_id cfg"
  shows "stats cfg en ctx (Message_update m) w =
       (Inr (), w\<lparr>next_message_id := Suc (next_message_id w),
                  trace := trace w @ [Reply_text (chat_id m) Not_authorized None]\<rparr>)
    \<and> broadcast cfg en ctx (Message_update m) w =
       (Inr (), w\<lparr>next_message_id := Suc (next_message_id w),
                  trace := trace w @ [Reply_text (chat_id m) No_permission None]\<rparr>)
    \<and> filter is_db (new_events w (snd (stats cfg en ctx (Message_update m) w))) = []
    \<and> filter is_send (new_events w (snd (stats cfg en ctx (Message_update m) w))) = []
    \<and> filter is_db (new_events w (snd (broadcast cfg en ctx (Message_update m) w))) = []
    \<and> filter is_send (new_events w (snd (broadcast cfg en ctx (Message_update m) w))) = []
    \<and> users (snd (stats cfg en ctx (Message_update m) w)) = users w
    \<and> airtime_requests (snd (stats cfg en ctx (Message_update m) w)) = airtime_requests w
    \<and> transactions (snd (stats cfg en ctx (Message_update m) w)) = transactions w
    \<and> users (snd (broadcast cfg en ctx (Message_update m) w)) = users w
    \<and> airtime_requests (snd (broadcast cfg en ctx (Message_update m) w)) = airtime_requests w
    \<and> transactions (snd (broadcast cfg en ctx (Message_update m) w)) = transactions w"
  using assms by (simp add: stats_denied_run broadcast_denied_run new_events_def)

theorem non_admin_denied_without_effect_witness:
  "uid (from_user (command_message alice ''stats'' [])) \<noteq> admin_id demo_config
   \<and> stats demo_config (demo_env (Inr ''member'')) \<lparr>args = []\<rparr>
        (Message_update (command_message alice ''stats'' []))
        (fresh_world\<lparr>users := three_users\<rparr>) =
       (Inr (), fresh_world\<lparr>users := three_users, next_message_id := 8,
                  trace := [Reply_text 555 Not_authorized None]\<rparr>)
   \<and> broadcast demo_config (demo_env (Inr ''member'')) \<lparr>args = [''hello'']\<rparr>
        (Message_update (command_message alice ''stats'' []))
        (fresh_world\<lparr>users := three_users\<rparr>) =
       (Inr (), fresh_world\<lparr>users := three_users, next_message_id := 8,
                  trace := [Reply_text 555 No_permission None]\<rparr>)"
  using
    non_admin_denied_without_effect [of "command_message alice ''stats'' []" demo_config
      "demo_env (Inr ''member'')" "\<lparr>args = []\<rparr>" "fresh_world\<lparr>users := three_users\<rparr>"]
    non_admin_denied_without_effect [of "command_message alice ''stats'' []" demo_config
      "demo_env (Inr ''member'')" "\<lparr>args = [''hello'']\<rparr>" "fresh_world\<lparr>users := three_users\<rparr>"]
  by (simp add: command_message_def alice_def demo_config_def fresh_world_def)

lemma broadcast_loop_run:
  "broadcast_loop en msg us k w =
     (k + length (filter (delivered en msg) us),
      w\<lparr>trace := trace w @ concat (map (delivery_events en msg) us)\<rparr>)"
proof (induction us arbitrary: k w)
  case Nil
  show ?case by simp
next
  case (Cons d ds)
  show ?case
    by (cases "send_message en (user_id d) msg")
      (simp_all add: Cons.IH delivered_def delivery_events_def emit_def)
qed

lemma broadcast_admin_run:
  assumes "uid (from_user m) = admin_id cfg" and "args ctx \<noteq> []"
  shows "broadcast cfg en ctx (Message_update m) w =
     (Inr (),
      w\<lparr>next_message_id := Suc (next_message_id w),
        trace := trace w @ Db ''users'' Find
          # concat (map (delivery_events en (broadcast_text ctx)) (users w))
          @ [Reply_text (chat_id m)
               (Broadcast_sent (length (filter (delivered en (broadcast_text ctx)) (users w))))
               None]\<rparr>)"
  using assms
  by (simp add: broadcast_def Let_def broadcast_loop_run bind_io_def reply_text_def return_io_def
      emit_def broadcast_text_def)

lemma filter_send_deliveries:
  "filter is_send (concat (map (delivery_events en msg) us)) =
     map (\<lambda>d. Send_message (user_id d) msg) us"
  by (induction us) (simp_all add: delivery_events_def)

lemma filter_reply_deliveries: "filter is_reply (concat (map (delivery_events en msg) us)) = []"
  by (induction us) (simp_all add: delivery_events_def)

text \<open>
  An admin broadcast with a non-empty message, sent as a new message, makes one delivery
  attempt per known user, in order, whatever the outcome of the attempts before: with N
  users the delivery succeeds for and M users it fails for, that is N + M attempts. The
  one reply to the admin reports N.
\<close>

theorem broadcast_attempts_all_reports_successes:
  assumes "uid (from_user m) = admin_id cfg" and "args ctx \<noteq> []"
  shows "fst (broadcast cfg en ctx (Message_update m) w) = Inr ()
    \<and> filter is_send (new_events w (snd (broadcast cfg en ctx (Message_update m) w))) =
        map (\<lambda>d. Send_message (user_id d) (broadcast_text ctx)) (users w)
    \<and> length (filter is_send (new_events w (snd (broadcast cfg en ctx (Message_update m) w)))) =
        length (filter (delivered en (broadcast_text ctx)) (users w))
        + length (filter (\<lambda>d. \<not> delivered en (broadcast_text ctx) d) (users w))
    \<and> filter is_reply (new_events w (snd (broadcast cfg en ctx (Message_update m) w))) =
        [Reply_text (chat_id m)
           (Broadcast_sent (length (filter (delivered en (broadcast_text ctx)) (users w)))) None]"
  by (simp add: broadcast_admin_run [OF assms] new_events_def filter_send_deliveries
      filter_reply_deliveries sum_length_filter_compl)

theorem broadcast_attempts_all_reports_successes_witness:
  "uid (from_user (command_message (alice\<lparr>uid := 1\<rparr>) ''broadcast'' [''hello'', ''all''])) =
      admin_id demo_config
   \<and> map (delivered (demo_env (Inr ''member'')) (Plain ''hello all'')) three_users =
       [True, False, True]
   \<and> trace (snd (broadcast demo_config (demo_env (Inr ''member''))
         \<lparr>args = [''hello'', ''all'']\<rparr>
         (Message_update (command_message (alice\<lparr>uid := 1\<rparr>) ''broadcast'' [''hello'', ''all'']))
         (fresh_world\<lparr>users := three_users\<rparr>))) =
       [Db ''users'' Find,
        Send_message 2 (Plain ''hello all''),
        Send_message 3 (Plain ''hello all''), Log_error,
        Send_message 4 (Plain ''hello all''),
        Reply_text 1 (Broadcast_sent 2) None]"
proof -
  have t: "trace (snd (broadcast demo_config (demo_env (Inr ''member''))
         \<lparr>args = [''hello'', ''all'']\<rparr>
         (Message_update (command_message (alice\<lparr>uid := 1\<rparr>) ''broadcast'' [''hello'', ''all'']))
         (fresh_world\<lparr>users := three_users\<rparr>))) =
       [Db ''users'' Find,
        Send_message 2 (Plain ''hello all''),
        Send_message 3 (Plain ''hello all''), Log_error,
        Send_message 4 (Plain ''hello all''),
        Reply_text 1 (Broadcast_sent 2) None]"
    by (simp add: broadcast_def Let_def bind_io_def reply_text_def return_io_def emit_def
        command_message_def alice_def demo_config_def demo_env_def fresh_world_def three_users_def
        alice_doc_def)
  show ?thesis
    using broadcast_attempts_all_reports_successes
      [of "command_message (alice\<lparr>uid := 1\<rparr>) ''broadcast'' [''hello'', ''all'']" demo_config
        "\<lparr>args = [''hello'', ''all'']\<rparr>" "demo_env (Inr ''member'')"
        "fresh_world\<lparr>users := three_users\<rparr>"] t
    by (simp add: command_message_def alice_def demo_config_def demo_env_def three_users_def
        alice_doc_def delivered_def)
qed

section \<open>Admin commands in an edited message\<close>

lemma broadcast_admin_no_message_run:
  assumes "uid (effective_user update) = admin_id cfg" and "args ctx \<noteq> []"
    and "message update = None"
  shows "broadcast cfg en ctx update w =
     (Inl AttributeError,
      w\<lparr>trace := trace w @ Db ''users'' Find
          # concat (map (delivery_events en (broadcast_text ctx)) (users w))\<rparr>)"
  using assms
  by (simp add: broadcast_def Let_def broadcast_loop_run bind_io_def reply_text_def emit_def
      broadcast_text_def)

text \<open>
  C8, at a \<^verbatim>\<open>/stats\<close> and a \<^verbatim>\<open>/broadcast\<close> that a caller who is not the
  admin sends by editing a message. The command handler accepts the edited message,
  \<^verbatim>\<open>update.message\<close> is \<^verbatim>\<open>None\<close>, and the handler raises
  \<^verbatim>\<open>AttributeError\<close> at \<^verbatim>\<open>update.message.reply_text\<close>: nothing changes and
  no denial is sent. Sent as a new message, the same command is answered with the denial.
\<close>

theorem edited_command_by_non_admin_gets_no_denial:
  "uid alice = 555 \<and> admin_id demo_config = 1
   \<and> process_update demo_config (demo_env (Inr ''member''))
        (Edited_message_update (command_message alice ''stats'' []))
        (fresh_world\<lparr>users := three_users\<rparr>) =
       (Inl AttributeError, fresh_world\<lparr>users := three_users\<rparr>)
   \<and> process_update demo_config (demo_env (Inr ''member''))
        (Edited_message_update (command_message alice ''broadcast'' [''hello'']))
        (fresh_world\<lparr>users := three_users\<rparr>) =
       (Inl AttributeError, fresh_world\<lparr>users := three_users\<rparr>)
   \<and> trace (snd (process_update demo_config (demo_env (Inr ''member''))
        (Message_update (command_message alice ''stats'' []))
        (fresh_world\<lparr>users := three_users\<rparr>))) = [Reply_text 555 Not_authorized None]"
  by (simp add: process_update_def dispatch_command_def command_handlers_def str_lower_def
      lower_char_def stats_def broadcast_def bind_io_def reply_text_def return_io_def emit_def
      command_message_def alice_def demo_config_def fresh_world_def)

text \<open>
  C9, at a \<^verbatim>\<open>/broadcast hello all\<close> that the admin sends by editing a message,
  with three known users of whom the second has blocked the bot. All three deliveries
  are attempted; then \<^verbatim>\<open>update.message.reply_text\<close> raises
  \<^verbatim>\<open>AttributeError\<close> and no report reaches the admin. Sent as a new message, the
  same command ends with the report of two deliveries.
\<close>

theorem edited_broadcast_sends_without_report:
  "uid (alice\<lparr>uid := 1\<rparr>) = admin_id demo_config
   \<and> fst (process_update demo_config (demo_env (Inr ''member''))
        (Edited_message_update
           (command_message (alice\<lparr>uid := 1\<rparr>) ''broadcast'' [''hello'', ''all'']))
        (fresh_world\<lparr>users := three_users\<rparr>)) = Inl AttributeError
   \<and> trace (snd (process_update demo_config (demo_env (Inr ''member''))
        (Edited_message_update
           (command_message (alice\<lparr>uid := 1\<rparr>) ''broadcast'' [''hello'', ''all'']))
        (fresh_world\<lparr>users := three_users\<rparr>))) =
       [Db ''users'' Find,
        Send_message 2 (Plain ''hello all''),
        Send_message 3 (Plain ''hello all''), Log_error,
        Send_message 4 (Plain ''hello all'')]
   \<and> trace (snd (process_update demo_config (demo_env (Inr ''member''))
        (Message_update
           (command_message (alice\<lparr>uid := 1\<rparr>) ''broadcast'' [''hello'', ''all'']))
        (fresh_world\<lparr>users := three_users\<rparr>))) =
       [Db ''users'' Find,
        Send_message 2 (Plain ''hello all''),
        Send_message 3 (Plain ''hello all''), Log_error,
        Send_message 4 (Plain ''hello all''),
        Reply_text 1 (Broadcast_sent 2) None]"
  by (simp add: process_update_def dispatch_command_def command_handlers_def str_lower_def
      lower_char_def broadcast_def Let_def bind_io_def reply_text_def return_io_def emit_def
      command_message_def alice_def demo_config_def demo_env_def fresh_world_def three_users_def
      alice_doc_def)

section \<open>The upsert, the verify callback and the profile command at work\<close>

text \<open>
  The upsert keeps one record per user id: it adds a record only when none matches.
\<close>

lemma update_one_upsert_count:
  assumes "\<And>d. p d \<Longrightarrow> p (f d)" and "p ins"
  shows "length (filter p (update_one_upsert p f ins ds)) = max 1 (length (filter p ds))"
  using assms by (induction ds) auto

lemma upserted_no_duplicate:
  "length (filter (\<lambda>d. user_id d = uid user) (upserted user w)) =
     max 1 (length (filter (\<lambda>d. user_id d = uid user) (users w)))"
  unfolding upserted_def add_user_def Let_def emit_def
  by (simp add: update_one_upsert_count)

lemma upserted_trace [simp]: "upserted user (w\<lparr>trace := t\<rparr>) = upserted user w"
  by (simp add: upserted_def add_user_def Let_def emit_def)

text \<open>
  A failed Verify press: the lookups, then the alert; the prompt is not edited and no
  collection is touched. A successful one edits the prompt and calls \<^verbatim>\<open>start\<close>
  with the callback update, whose \<^verbatim>\<open>message\<close> is \<^verbatim>\<open>None\<close>: after the
  upsert and the second check, \<^verbatim>\<open>update.message.reply_text\<close> raises.
\<close>

lemma verify_membership_failure_run:
  assumes "\<not> satisfies_memberships cfg en (uid (cq_from_user q))"
  shows "verify_membership cfg en ctx (Callback_update q) w =
     (Inr (), w\<lparr>trace := trace w @ oracle_events cfg en (uid (cq_from_user q))
                  @ [Answer_query (Some Not_joined_alert) True]\<rparr>)"
  using assms
  by (simp add: verify_membership_def Let_def bind_io_def is_user_member_run answer_def emit_def)

lemma verify_membership_success_run:
  assumes "satisfies_memberships cfg en (uid (cq_from_user q))"
  shows "verify_membership cfg en ctx (Callback_update q) w =
     (Inl AttributeError,
      w\<lparr>users := upserted (cq_from_user q) w,
        trace := trace w @ oracle_events cfg en (uid (cq_from_user q))
          @ [Edit_text (message_id (cq_message q)) Verified_text, Db ''users'' Update_one]
          @ oracle_events cfg en (uid (cq_from_user q))\<rparr>)"
  using assms
  by (simp add: verify_membership_def start_def Let_def bind_io_def is_user_member_run
      edit_text_def add_user_run reply_text_def emit_def)

text \<open>
  C4, at a Verify press by a member. The prompt is edited to the confirmation, the user
  is upserted and the membership is checked again; then the handler raises
  \<^verbatim>\<open>AttributeError\<close> and the feature menu is never sent.
\<close>

theorem verify_success_raises_before_menu:
  "satisfies_memberships demo_config (demo_env (Inr ''member'')) (uid alice)
   \<and> fst (verify_membership demo_config (demo_env (Inr ''member'')) \<lparr>args = []\<rparr>
        (Callback_update (button_press alice ''verify_membership'')) fresh_world) =
       Inl AttributeError
   \<and> trace (snd (verify_membership demo_config (demo_env (Inr ''member'')) \<lparr>args = []\<rparr>
        (Callback_update (button_press alice ''verify_membership'')) fresh_world)) =
       [Get_chat_member ''@alpha'' 555,
        Edit_text 6 Verified_text,
        Db ''users'' Update_one,
        Get_chat_member ''@alpha'' 555]
   \<and> \<not> list_ex is_menu (trace (snd (verify_membership demo_config (demo_env (Inr ''member''))
        \<lparr>args = []\<rparr> (Callback_update (button_press alice ''verify_membership'')) fresh_world)))"
  by (simp add: verify_membership_def start_def Let_def bind_io_def is_user_member_def
      edit_text_def add_user_def reply_text_def emit_def satisfies_memberships_def lookup_ok_def
      status_ok_def demo_config_def demo_env_def button_press_def alice_def fresh_world_def)

text \<open>
  C6, at a second entry command. The first \<^verbatim>\<open>/start\<close> at time 100 creates the
  record with join date 100; a later \<^verbatim>\<open>/start\<close> at time 1000 keeps the single
  record and overwrites its join date with 1000.
\<close>

theorem second_start_resets_join_date:
  "users (snd (start demo_config (demo_env (Inr ''member'')) \<lparr>args = []\<rparr>
        (Message_update (command_message alice ''start'' []))
        (fresh_world\<lparr>clock := 100\<rparr>))) = [alice_doc]
   \<and> join_date alice_doc = 100
   \<and> users (snd (start demo_config (demo_env (Inr ''member'')) \<lparr>args = []\<rparr>
        (Message_update (command_message alice ''start'' []))
        (fresh_world\<lparr>users := [alice_doc], clock := 1000\<rparr>))) =
       [alice_doc\<lparr>join_date := 1000\<rparr>]"
  by (simp add: start_def Let_def bind_io_def is_user_member_def add_user_def reply_text_def
      return_io_def emit_def demo_config_def demo_env_def command_message_def alice_def
      alice_doc_def fresh_world_def)

text \<open>
  C7, at a profile command by a member who has no record yet. The membership is
  queried first and no upsert follows: the collection stays empty and the handler raises
  \<^verbatim>\<open>AttributeError\<close> on the missing record. The entry command upserts, then queries.
\<close>

theorem profile_reads_without_upsert:
  "satisfies_memberships demo_config (demo_env (Inr ''member'')) (uid alice)
   \<and> fst (profile demo_config (demo_env (Inr ''member'')) \<lparr>args = []\<rparr>
        (Message_update (command_message alice ''profile'' [])) fresh_world) =
       Inl AttributeError
   \<and> users (snd (profile demo_config (demo_env (Inr ''member'')) \<lparr>args = []\<rparr>
        (Message_update (command_message alice ''profile'' [])) fresh_world)) = []
   \<and> trace (snd (profile demo_config (demo_env (Inr ''member'')) \<lparr>args = []\<rparr>
        (Message_update (command_message alice ''profile'' [])) fresh_world)) =
       [Get_chat_member ''@alpha'' 555,
        Db ''users'' Find_one,
        Db ''airtime_requests'' Count_documents]
   \<and> trace (snd (start demo_config (demo_env (Inr ''member'')) \<lparr>args = []\<rparr>
        (Message_update (command_message alice ''start'' [])) fresh_world)) =
       [Db ''users'' Update_one,
        Get_chat_member ''@alpha'' 555,
        Reply_text 555 Welcome_text (Some feature_menu)]"
  by (simp add: profile_def start_def Let_def bind_io_def is_user_member_def add_user_def
      get_user_stats_def reply_text_def return_io_def raise_io_def emit_def
      satisfies_memberships_def lookup_ok_def status_ok_def demo_config_def demo_env_def
      command_message_def alice_def fresh_world_def)

end
